theory Spec2Isabelle
  imports Main "HOL-Library.Word"
begin

section \<open>Response handlers of \<open>util/response-handler.ts\<close>\<close>

text \<open>
  The file defines three factories of response handlers:
  \<open>createJsonErrorResponseHandler\<close>, \<open>createEventSourceResponseHandler\<close> and
  \<open>createJsonResponseHandler\<close>. A handler is an \<open>async\<close> function of
  \<open>{url, requestBodyValues, response}\<close>; the promise it returns is modelled by a sum:
  \<open>Inr v\<close> is a promise fulfilled with \<open>v\<close>, \<open>Inl t\<close> a promise rejected with the
  thrown value \<open>t\<close>.
\<close>

subsection \<open>Strings\<close>

text \<open>
  A JavaScript string is a sequence of UTF-16 code units. \<open>utf16\<close> writes an ASCII
  literal of the source as such a sequence.
\<close>

type_synonym js_string = "16 word list"

definition utf16 :: "string \<Rightarrow> js_string" where
  "utf16 s = map (\<lambda>c. of_nat (of_char c)) s"

text \<open>
  \<open>String.prototype.trim\<close> removes leading and trailing code units that are WhiteSpace or
  LineTerminator in ECMAScript: TAB, LF, VT, FF, CR, SPACE, NBSP, U+1680, U+2000 to U+200A,
  U+2028, U+2029, U+202F, U+205F, U+3000 and U+FEFF.
\<close>

definition isWhiteSpace :: "16 word \<Rightarrow> bool" where
  "isWhiteSpace c \<longleftrightarrow>
     List.member [0x0009, 0x000A, 0x000B, 0x000C, 0x000D, 0x0020, 0x00A0, 0x1680,
                  0x2000, 0x2001, 0x2002, 0x2003, 0x2004, 0x2005, 0x2006, 0x2007,
                  0x2008, 0x2009, 0x200A, 0x2028, 0x2029, 0x202F, 0x205F, 0x3000,
                  0xFEFF] c"

definition trim :: "js_string \<Rightarrow> js_string" where
  "trim s = rev (dropWhile isWhiteSpace (rev (dropWhile isWhiteSpace s)))"

subsection \<open>Data\<close>

text \<open>
  What the handlers read of a \<open>Response\<close>: \<open>status\<close>, \<open>statusText\<close>, the outcome of
  \<open>await response.text()\<close> (the promise may reject: \<open>Inl\<close>) and \<open>body\<close>, which is
  \<open>null\<close> or a stream of byte chunks (of type \<open>'b\<close>). A stream is modelled by the list of
  the chunks it delivers before it closes.
\<close>

record ('x, 'b) response =
  status :: nat
  statusText :: js_string
  bodyText :: "'x + js_string"
  body :: "'b list option"

text \<open>The argument of a \<open>ResponseHandler\<close>.\<close>

record ('x, 'b, 'v) handler_options =
  url :: js_string
  requestBodyValues :: 'v
  response :: "('x, 'b) response"

text \<open>
  Modelled from the spec: the class \<open>ApiCallError\<close> of \<open>../errors\<close> is not among the
  sources. The record holds the properties the source passes to its constructor; a property
  the source leaves out is \<open>None\<close> (the spec's "absent").
\<close>

record ('x, 'v, 'a) api_call_error =
  err_message :: js_string
  err_url :: js_string
  err_requestBodyValues :: 'v
  err_statusCode :: nat
  err_responseBody :: js_string
  err_cause :: "'x option"
  err_data :: "'a option"
  err_isRetryable :: "bool option"

text \<open>
  What a handler can throw: a value thrown by code it calls (\<open>'x\<close>), \<open>new Error(msg)\<close>,
  or an \<open>ApiCallError\<close>.
\<close>

datatype ('x, 'v, 'a) thrown =
    Foreign 'x
  | Error js_string
  | ApiCallError "('x, 'v, 'a) api_call_error"

text \<open>
  Modelled from the spec: the result of \<open>safeParseJSON\<close> of \<open>./parse-json\<close>,
  \<open>{success: true, value}\<close> or \<open>{success: false, error}\<close>, and the \<open>ParsedChunk\<close> of
  \<open>./parsed-chunk\<close>, \<open>{type: 'value', value}\<close> or \<open>{type: 'error', error}\<close>.
  The functions \<open>parseJSON\<close> (returns the validated value or throws) and \<open>safeParseJSON\<close>
  (never throws) are parameters of the model, applied to the text and the schema.
\<close>

datatype ('a, 'x) parse_result = Success 'a | Failure 'x

datatype ('a, 'x) ParsedChunk = ChunkValue 'a | ChunkError 'x

text \<open>The \<open>ParsedEvent\<close> of the package \<open>eventsource-parser\<close>.\<close>

record ParsedEvent =
  event :: "js_string option"
  event_id :: "js_string option"
  data :: js_string

subsection \<open>createJsonErrorResponseHandler\<close>

text \<open>
  The options of the factory. The two callbacks are JavaScript functions, which return
  a value or throw; \<open>isRetryable\<close> is optional and takes an optional second argument.
\<close>

record ('s, 'a, 'x, 'b) json_error_options =
  errorSchema :: 's
  errorToMessage :: "'a \<Rightarrow> 'x + js_string"
  isRetryable :: "(('x, 'b) response \<Rightarrow> 'a option \<Rightarrow> 'x + bool) option"

text \<open>The optional call \<open>isRetryable?.(response, error)\<close>: \<open>undefined\<close> when there is no function.\<close>

definition optional_call ::
  "(('x, 'b) response \<Rightarrow> 'a option \<Rightarrow> 'x + bool) option \<Rightarrow> ('x, 'b) response \<Rightarrow> 'a option
     \<Rightarrow> 'x + bool option" where
  "optional_call f r e =
     (case f of
        None \<Rightarrow> Inr None
      | Some p \<Rightarrow> (case p r e of Inl x \<Rightarrow> Inl x | Inr b \<Rightarrow> Inr (Some b)))"

definition createJsonErrorResponseHandler ::
  "(js_string \<Rightarrow> 's \<Rightarrow> 'x + 'a) \<Rightarrow> ('s, 'a, 'x, 'b) json_error_options
     \<Rightarrow> ('x, 'b, 'v) handler_options
     \<Rightarrow> ('x, 'v, 'a) thrown + ('x, 'v, 'a) api_call_error" where
  "createJsonErrorResponseHandler parseJSON cfg opts =
     (case bodyText (response opts) of
        Inl x \<Rightarrow> Inl (Foreign x)
      | Inr responseBody \<Rightarrow>
          if trim responseBody = []
          then (case optional_call (isRetryable cfg) (response opts) None of
                  Inl x \<Rightarrow> Inl (Foreign x)
                | Inr retry \<Rightarrow>
                    Inr \<lparr> err_message = statusText (response opts),
                          err_url = url opts,
                          err_requestBodyValues = requestBodyValues opts,
                          err_statusCode = status (response opts),
                          err_responseBody = responseBody,
                          err_cause = None,
                          err_data = None,
                          err_isRetryable = retry \<rparr>)
          else (case (case parseJSON responseBody (errorSchema cfg) of
                        Inl x \<Rightarrow> Inl x
                      | Inr parsedError \<Rightarrow>
                          (case errorToMessage cfg parsedError of
                             Inl x \<Rightarrow> Inl x
                           | Inr msg \<Rightarrow>
                               (case optional_call (isRetryable cfg) (response opts)
                                       (Some parsedError) of
                                  Inl x \<Rightarrow> Inl x
                                | Inr retry \<Rightarrow>
                                    Inr \<lparr> err_message = msg,
                                          err_url = url opts,
                                          err_requestBodyValues = requestBodyValues opts,
                                          err_statusCode = status (response opts),
                                          err_responseBody = responseBody,
                                          err_cause = None,
                                          err_data = Some parsedError,
                                          err_isRetryable = retry \<rparr>))) of
                  Inr e \<Rightarrow> Inr e
                | Inl parseError \<Rightarrow>
                    (case optional_call (isRetryable cfg) (response opts) None of
                       Inl x \<Rightarrow> Inl (Foreign x)
                     | Inr retry \<Rightarrow>
                         Inr \<lparr> err_message = statusText (response opts),
                               err_url = url opts,
                               err_requestBodyValues = requestBodyValues opts,
                               err_statusCode = status (response opts),
                               err_responseBody = responseBody,
                               err_cause = None,
                               err_data = None,
                               err_isRetryable = retry \<rparr>)))"

subsection \<open>createEventSourceResponseHandler\<close>

text \<open>
  The \<open>controller\<close> of a \<open>TransformStream\<close> is modelled by the list of the chunks enqueued
  so far; \<open>enqueue\<close> appends one.
\<close>

definition enqueue :: "'o list \<Rightarrow> 'o \<Rightarrow> 'o list" where
  "enqueue controller chunk = controller @ [chunk]"

text \<open>The \<open>transform\<close> callback of the source, called once for each event.\<close>

definition transform ::
  "(js_string \<Rightarrow> 's \<Rightarrow> ('a, 'x) parse_result) \<Rightarrow> 's \<Rightarrow> ParsedEvent
     \<Rightarrow> ('a, 'x) ParsedChunk list \<Rightarrow> ('a, 'x) ParsedChunk list" where
  "transform safeParseJSON chunkSchema ev controller =
     (if data ev = utf16 ''[DONE]'' then controller
      else let parseResult = safeParseJSON (data ev) chunkSchema
           in enqueue controller
                (case parseResult of
                   Success v \<Rightarrow> ChunkValue v
                 | Failure e \<Rightarrow> ChunkError e))"

text \<open>
  \<open>new TransformStream({transform})\<close>: the callback runs on the chunks of the input in
  their order, against one controller; the output is what has been enqueued.
\<close>

fun runTransform :: "('i \<Rightarrow> 'o list \<Rightarrow> 'o list) \<Rightarrow> 'i list \<Rightarrow> 'o list \<Rightarrow> 'o list" where
  "runTransform tf [] controller = controller"
| "runTransform tf (c # cs) controller = runTransform tf cs (tf c controller)"

definition TransformStream :: "('i \<Rightarrow> 'o list \<Rightarrow> 'o list) \<Rightarrow> 'i list \<Rightarrow> 'o list" where
  "TransformStream tf input = runTransform tf input []"

definition pipeThrough :: "'i list \<Rightarrow> ('i list \<Rightarrow> 'o list) \<Rightarrow> 'o list" where
  "pipeThrough stream stage = stage stream"

text \<open>
  \<open>TextDecoderStream\<close> (of the platform) and \<open>EventSourceParserStream\<close> (of the package
  \<open>eventsource-parser\<close>) are parameters: the first maps byte chunks to text chunks, the
  second text chunks to events.
\<close>

definition createEventSourceResponseHandler ::
  "('b list \<Rightarrow> js_string list) \<Rightarrow> (js_string list \<Rightarrow> ParsedEvent list)
     \<Rightarrow> (js_string \<Rightarrow> 's \<Rightarrow> ('a, 'x) parse_result) \<Rightarrow> 's
     \<Rightarrow> ('x, 'b, 'v) handler_options
     \<Rightarrow> ('x, 'v, 'a) thrown + ('a, 'x) ParsedChunk list" where
  "createEventSourceResponseHandler textDecoderStream eventSourceParserStream
       safeParseJSON chunkSchema opts =
     (case body (response opts) of
        None \<Rightarrow> Inl (Error (utf16 ''No response body''))
      | Some bytes \<Rightarrow>
          Inr (pipeThrough
                 (pipeThrough (pipeThrough bytes textDecoderStream) eventSourceParserStream)
                 (TransformStream (transform safeParseJSON chunkSchema))))"

subsection \<open>createJsonResponseHandler\<close>

definition createJsonResponseHandler ::
  "(js_string \<Rightarrow> 's \<Rightarrow> ('a, 'x) parse_result) \<Rightarrow> 's \<Rightarrow> ('x, 'b, 'v) handler_options
     \<Rightarrow> ('x, 'v, 'd) thrown + 'a" where
  "createJsonResponseHandler safeParseJSON responseSchema opts =
     (case bodyText (response opts) of
        Inl x \<Rightarrow> Inl (Foreign x)
      | Inr responseBody \<Rightarrow>
          (case safeParseJSON responseBody responseSchema of
             Failure err \<Rightarrow>
               Inl (ApiCallError
                 \<lparr> err_message = utf16 ''Invalid JSON response'',
                   err_url = url opts,
                   err_requestBodyValues = requestBodyValues opts,
                   err_statusCode = status (response opts),
                   err_responseBody = responseBody,
                   err_cause = Some err,
                   err_data = None,
                   err_isRetryable = None \<rparr>)
           | Success v \<Rightarrow> Inr v))"

subsection \<open>Example inputs\<close>

text \<open>
  Concrete callbacks, parsers and responses on which the theorems below are evaluated.
  The example parsers accept the bodies written out in them and reject every other text;
  the example decoder reads each byte as one code unit, and the example event parser takes
  each text chunk as the \<open>data\<close> of one event.
\<close>

definition ascii :: "string \<Rightarrow> 8 word list" where
  "ascii s = map (\<lambda>c. of_nat (of_char c)) s"

definition ex_parseJSON :: "js_string \<Rightarrow> unit \<Rightarrow> string + js_string" where
  \<open>ex_parseJSON text schema =
     (if text = utf16 ''{"error":"rate limited"}'' then Inr (utf16 ''rate limited'')
      else Inl ''JSONParseError'')\<close>

definition ex_safeParseJSON :: "js_string \<Rightarrow> unit \<Rightarrow> (nat, string) parse_result" where
  \<open>ex_safeParseJSON text schema =
     (if text = utf16 ''{"v":1}'' then Success 1
      else if text = utf16 ''{"v":2}'' then Success 2
      else Failure ''JSONParseError'')\<close>

definition ex_errorToMessage :: "js_string \<Rightarrow> string + js_string" where
  "ex_errorToMessage e = Inr e"

definition ex_throwingToMessage :: "js_string \<Rightarrow> string + js_string" where
  "ex_throwingToMessage e = Inl ''TypeError''"

definition ex_isRetryable :: "(string, 8 word list) response \<Rightarrow> js_string option \<Rightarrow> string + bool" where
  "ex_isRetryable r e = Inr (status r = 429)"

definition ex_throwingIsRetryable ::
  "(string, 8 word list) response \<Rightarrow> js_string option \<Rightarrow> string + bool" where
  "ex_throwingIsRetryable r e = Inl ''TypeError''"

definition ex_retryableByPayload ::
  "(string, 8 word list) response \<Rightarrow> js_string option \<Rightarrow> string + bool" where
  "ex_retryableByPayload r e =
     Inr (case e of
            None \<Rightarrow> 500 \<le> status r
          | Some p \<Rightarrow> status r = 429 \<and> p = utf16 ''rate limited'')"

definition ex_response_500 :: "(string, 8 word list) response" where
  "ex_response_500 =
     \<lparr> status = 500, statusText = utf16 ''Internal Server Error'',
       bodyText = Inr (utf16 '' ''), body = None \<rparr>"

definition ex_response_429 :: "(string, 8 word list) response" where
  \<open>ex_response_429 =
     \<lparr> status = 429, statusText = utf16 ''Too Many Requests'',
       bodyText = Inr (utf16 ''{"error":"rate limited"}''), body = None \<rparr>\<close>

definition ex_response_502 :: "(string, 8 word list) response" where
  "ex_response_502 =
     \<lparr> status = 502, statusText = utf16 ''Bad Gateway'',
       bodyText = Inr (utf16 ''<html>''), body = None \<rparr>"

definition ex_response_stream :: "string list \<Rightarrow> (string, 8 word list) response" where
  "ex_response_stream chunks =
     \<lparr> status = 200, statusText = utf16 ''OK'',
       bodyText = Inr (utf16 (concat chunks)), body = Some (map ascii chunks) \<rparr>"

definition ex_options :: "(string, 8 word list) response \<Rightarrow> (string, 8 word list, string) handler_options" where
  "ex_options r =
     \<lparr> url = utf16 ''https://api.example.com/v1/chat'', requestBodyValues = ''prompt'',
       response = r \<rparr>"

definition ex_textDecoderStream :: "8 word list list \<Rightarrow> js_string list" where
  "ex_textDecoderStream chunks = map (map ucast) chunks"

definition ex_eventSourceParserStream :: "js_string list \<Rightarrow> ParsedEvent list" where
  "ex_eventSourceParserStream texts =
     map (\<lambda>t. \<lparr> event = None, event_id = None, data = t \<rparr>) texts"

section \<open>Auxiliary facts\<close>

text \<open>
  A text trims to the empty string exactly when all its code units are white space.
\<close>

lemma trim_empty_iff: "trim s = [] \<longleftrightarrow> (\<forall>c\<in>set s. isWhiteSpace c)"
proof
  assume "trim s = []"
  then have all: "\<forall>x\<in>set (dropWhile isWhiteSpace s). isWhiteSpace x"
    by (simp add: trim_def dropWhile_eq_Nil_conv)
  have "dropWhile isWhiteSpace s = []"
  proof (rule ccontr)
    assume ne: "dropWhile isWhiteSpace s \<noteq> []"
    then have "\<not> isWhiteSpace (hd (dropWhile isWhiteSpace s))"
      by (rule hd_dropWhile)
    moreover have "hd (dropWhile isWhiteSpace s) \<in> set (dropWhile isWhiteSpace s)"
      using ne by simp
    ultimately show False using all by blast
  qed
  then show "\<forall>c\<in>set s. isWhiteSpace c"
    by (simp add: dropWhile_eq_Nil_conv)
next
  assume "\<forall>c\<in>set s. isWhiteSpace c"
  then have dw: "dropWhile isWhiteSpace s = []"
    by (simp add: dropWhile_eq_Nil_conv)
  show "trim s = []"
    unfolding trim_def dw by simp
qed

lemma optional_call_None: "optional_call None r e = Inr None"
  by (simp add: optional_call_def)

lemma optional_call_Some:
  "optional_call (Some p) r e = (case p r e of Inl x \<Rightarrow> Inl x | Inr b \<Rightarrow> Inr (Some b))"
  by (simp add: optional_call_def)

text \<open>
  Running the \<open>transform\<close> callback over a list of events appends, in the order of the
  events, one chunk for each event whose \<open>data\<close> is not \<open>[DONE]\<close>.
\<close>

lemma runTransform_transform:
  "runTransform (transform safeParseJSON chunkSchema) evs controller =
     controller @ map (\<lambda>ev. case safeParseJSON (data ev) chunkSchema of
                   Success v \<Rightarrow> ChunkValue v
                 | Failure e \<Rightarrow> ChunkError e)
                  (filter (\<lambda>ev. data ev \<noteq> utf16 ''[DONE]'') evs)"
  by (induction evs arbitrary: controller) (simp_all add: transform_def enqueue_def)

lemmas ex_defs = ex_parseJSON_def ex_safeParseJSON_def ex_errorToMessage_def ex_throwingToMessage_def
  ex_isRetryable_def ex_throwingIsRetryable_def ex_response_500_def ex_response_429_def ex_response_502_def
  ex_response_stream_def ex_options_def ex_textDecoderStream_def ex_eventSourceParserStream_def
  utf16_def ascii_def trim_def isWhiteSpace_def optional_call_def

section \<open>Properties\<close>

subsection \<open>Error responses\<close>

text \<open>
  C1 (as amended). When the body text of the response can be read, and the retryability
  predicate is absent or returns a boolean when it is applied to the response alone, the
  handler made by \<open>createJsonErrorResponseHandler\<close> returns an \<open>ApiCallError\<close> and does not
  throw: for an empty body, for a body that \<open>parseJSON\<close> rejects, and for every behaviour,
  throwing included, of \<open>errorToMessage\<close> and of the predicate applied to the response and
  the decoded payload.
\<close>

theorem json_error_handler_returns:
  assumes "bodyText (response opts) = Inr b"
    and "optional_call (isRetryable cfg) (response opts) None = Inr retry"
  shows "\<exists>e. createJsonErrorResponseHandler parseJSON cfg opts = Inr e"
  using assms
  by (simp add: createJsonErrorResponseHandler_def split: sum.splits)

text \<open>
  The condition on the predicate cannot be dropped from C1: the calls
  \<open>isRetryable?.(response)\<close> of the empty-body branch and of the \<open>catch\<close> block are outside
  the \<open>try\<close> block. With a blank body and a predicate that throws, the handler throws.
\<close>

theorem json_error_handler_raises_counterexample:
  "createJsonErrorResponseHandler ex_parseJSON
     \<lparr> errorSchema = (), errorToMessage = ex_errorToMessage,
       isRetryable = Some ex_throwingIsRetryable \<rparr>
     (ex_options ex_response_500)
   = Inl (Foreign ''TypeError'')"
  by (simp add: createJsonErrorResponseHandler_def ex_defs)

text \<open>
  An instance of the amended C1: the body parses, \<open>errorToMessage\<close> throws inside the
  \<open>try\<close> block, and the handler still returns an error.
\<close>

theorem json_error_handler_returns_witness:
  "bodyText (response (ex_options ex_response_429)) = Inr (utf16 ''{\"error\":\"rate limited\"}'')
   \<and> optional_call (Some ex_isRetryable) (response (ex_options ex_response_429)) None = Inr (Some True)
   \<and> (\<exists>e. createJsonErrorResponseHandler ex_parseJSON
          \<lparr> errorSchema = (), errorToMessage = ex_throwingToMessage,
            isRetryable = Some ex_isRetryable \<rparr>
          (ex_options ex_response_429) = Inr e)"
proof -
  have h1: "bodyText (response (ex_options ex_response_429))
              = Inr (utf16 ''{\"error\":\"rate limited\"}'')"
    by (simp add: ex_options_def ex_response_429_def)
  have h2: "optional_call
              (isRetryable \<lparr> errorSchema = (), errorToMessage = ex_throwingToMessage,
                             isRetryable = Some ex_isRetryable \<rparr>)
              (response (ex_options ex_response_429)) None = Inr (Some True)"
    by (simp add: optional_call_def ex_isRetryable_def ex_options_def ex_response_429_def)
  show ?thesis
    using h1 h2 json_error_handler_returns [OF h1 h2, of ex_parseJSON] by simp
qed

text \<open>
  C2. When the body text trims to the empty string, the handler returns an
  \<open>ApiCallError\<close> whose message is the status text of the response, with no decoded payload,
  and whose retryability flag is absent when there is no predicate, and otherwise is the
  boolean that the predicate \<open>q\<close> returns when it is applied to the response alone (its
  second argument absent).
\<close>

theorem json_error_handler_empty_body:
  assumes "bodyText (response opts) = Inr b"
    and "trim b = []"
  shows "(isRetryable cfg = None \<longrightarrow>
            createJsonErrorResponseHandler parseJSON cfg opts =
              Inr \<lparr> err_message = statusText (response opts),
                   err_url = url opts,
                   err_requestBodyValues = requestBodyValues opts,
                   err_statusCode = status (response opts),
                   err_responseBody = b,
                   err_cause = None,
                   err_data = None,
                   err_isRetryable = None \<rparr>)
       \<and> (isRetryable cfg = Some q \<longrightarrow> q (response opts) None = Inr v \<longrightarrow>
            createJsonErrorResponseHandler parseJSON cfg opts =
              Inr \<lparr> err_message = statusText (response opts),
                   err_url = url opts,
                   err_requestBodyValues = requestBodyValues opts,
                   err_statusCode = status (response opts),
                   err_responseBody = b,
                   err_cause = None,
                   err_data = None,
                   err_isRetryable = Some v \<rparr>)"
  using assms
  by (simp add: createJsonErrorResponseHandler_def optional_call_def)

text \<open>
  An instance of C2: status 500 with a blank body, once with a predicate that holds for a
  status of 500 or more when it gets no payload, once with no predicate.
\<close>

theorem json_error_handler_empty_body_witness:
  "trim (utf16 '' '') = []
   \<and> createJsonErrorResponseHandler ex_parseJSON
        \<lparr> errorSchema = (), errorToMessage = ex_errorToMessage,
          isRetryable = Some ex_retryableByPayload \<rparr>
        (ex_options ex_response_500)
     = Inr \<lparr> err_message = utf16 ''Internal Server Error'',
             err_url = utf16 ''https://api.example.com/v1/chat'',
             err_requestBodyValues = ''prompt'',
             err_statusCode = 500,
             err_responseBody = utf16 '' '',
             err_cause = None,
             err_data = None,
             err_isRetryable = Some True \<rparr>
   \<and> createJsonErrorResponseHandler ex_parseJSON
        \<lparr> errorSchema = (), errorToMessage = ex_errorToMessage,
          isRetryable = None :: ((string, 8 word list) response \<Rightarrow> js_string option \<Rightarrow> string + bool) option \<rparr>
        (ex_options ex_response_500)
     = Inr \<lparr> err_message = utf16 ''Internal Server Error'',
             err_url = utf16 ''https://api.example.com/v1/chat'',
             err_requestBodyValues = ''prompt'',
             err_statusCode = 500,
             err_responseBody = utf16 '' '',
             err_cause = None,
             err_data = None,
             err_isRetryable = None \<rparr>"
proof -
  let ?cfgS = "\<lparr> errorSchema = (), errorToMessage = ex_errorToMessage,
                  isRetryable = Some ex_retryableByPayload \<rparr>"
  let ?cfgN = "\<lparr> errorSchema = (), errorToMessage = ex_errorToMessage,
                  isRetryable = None :: ((string, 8 word list) response \<Rightarrow> js_string option \<Rightarrow> string + bool) option \<rparr>"
  have h1: "bodyText (response (ex_options ex_response_500)) = Inr (utf16 '' '')"
    by (simp add: ex_options_def ex_response_500_def)
  have h2: "trim (utf16 '' '') = []"
    by (simp add: trim_def utf16_def isWhiteSpace_def)
  have s1: "isRetryable ?cfgS = Some ex_retryableByPayload"
    by simp
  have s2: "ex_retryableByPayload (response (ex_options ex_response_500)) None = Inr True"
    by (simp add: ex_retryableByPayload_def ex_options_def ex_response_500_def)
  have n1: "isRetryable ?cfgN = None"
    by simp
  show ?thesis
    using h2 s1 s2 n1
      json_error_handler_empty_body
        [where parseJSON = ex_parseJSON and cfg = ?cfgS and q = ex_retryableByPayload
           and v = True, OF h1 h2]
      json_error_handler_empty_body
        [where parseJSON = ex_parseJSON and cfg = ?cfgN and q = ex_retryableByPayload
           and v = True, OF h1 h2]
    by (simp add: ex_options_def ex_response_500_def)
qed

text \<open>
  C3. When the body does not trim to the empty string and \<open>parseJSON\<close> returns the payload
  \<open>p\<close>, the handler returns an \<open>ApiCallError\<close> whose message is what \<open>errorToMessage\<close>
  returns for \<open>p\<close>, with \<open>p\<close> attached as data, and whose retryability flag is the boolean
  that the predicate \<open>q\<close> returns when it is applied to the response and \<open>p\<close> (absent when
  there is no predicate).
\<close>

theorem json_error_handler_parsed:
  assumes "bodyText (response opts) = Inr b"
    and "trim b \<noteq> []"
    and "parseJSON b (errorSchema cfg) = Inr p"
    and "errorToMessage cfg p = Inr m"
  shows "(isRetryable cfg = None \<longrightarrow>
            createJsonErrorResponseHandler parseJSON cfg opts =
              Inr \<lparr> err_message = m,
                   err_url = url opts,
                   err_requestBodyValues = requestBodyValues opts,
                   err_statusCode = status (response opts),
                   err_responseBody = b,
                   err_cause = None,
                   err_data = Some p,
                   err_isRetryable = None \<rparr>)
       \<and> (isRetryable cfg = Some q \<longrightarrow> q (response opts) (Some p) = Inr v \<longrightarrow>
            createJsonErrorResponseHandler parseJSON cfg opts =
              Inr \<lparr> err_message = m,
                   err_url = url opts,
                   err_requestBodyValues = requestBodyValues opts,
                   err_statusCode = status (response opts),
                   err_responseBody = b,
                   err_cause = None,
                   err_data = Some p,
                   err_isRetryable = Some v \<rparr>)"
  using assms
  by (simp add: createJsonErrorResponseHandler_def optional_call_def)

text \<open>
  An instance of C3, the scenario of the specification: status 429, the body
  \<open>{"error":"rate limited"}\<close>, a message taken from the \<open>error\<close> field, and a predicate that
  holds for status 429 with this payload and fails for status 429 with no payload; then the
  same call with no predicate.
\<close>

theorem json_error_handler_parsed_witness:
  "ex_retryableByPayload (response (ex_options ex_response_429)) None = Inr False
   \<and> createJsonErrorResponseHandler ex_parseJSON
        \<lparr> errorSchema = (), errorToMessage = ex_errorToMessage,
          isRetryable = Some ex_retryableByPayload \<rparr>
        (ex_options ex_response_429)
     = Inr \<lparr> err_message = utf16 ''rate limited'',
             err_url = utf16 ''https://api.example.com/v1/chat'',
             err_requestBodyValues = ''prompt'',
             err_statusCode = 429,
             err_responseBody = utf16 ''{\"error\":\"rate limited\"}'',
             err_cause = None,
             err_data = Some (utf16 ''rate limited''),
             err_isRetryable = Some True \<rparr>
   \<and> createJsonErrorResponseHandler ex_parseJSON
        \<lparr> errorSchema = (), errorToMessage = ex_errorToMessage,
          isRetryable = None :: ((string, 8 word list) response \<Rightarrow> js_string option \<Rightarrow> string + bool) option \<rparr>
        (ex_options ex_response_429)
     = Inr \<lparr> err_message = utf16 ''rate limited'',
             err_url = utf16 ''https://api.example.com/v1/chat'',
             err_requestBodyValues = ''prompt'',
             err_statusCode = 429,
             err_responseBody = utf16 ''{\"error\":\"rate limited\"}'',
             err_cause = None,
             err_data = Some (utf16 ''rate limited''),
             err_isRetryable = None \<rparr>"
proof -
  let ?cfgS = "\<lparr> errorSchema = (), errorToMessage = ex_errorToMessage,
                  isRetryable = Some ex_retryableByPayload \<rparr>"
  let ?cfgN = "\<lparr> errorSchema = (), errorToMessage = ex_errorToMessage,
                  isRetryable = None :: ((string, 8 word list) response \<Rightarrow> js_string option \<Rightarrow> string + bool) option \<rparr>"
  let ?b = "utf16 ''{\"error\":\"rate limited\"}''"
  let ?p = "utf16 ''rate limited''"
  have h0: "ex_retryableByPayload (response (ex_options ex_response_429)) None = Inr False"
    by (simp add: ex_retryableByPayload_def ex_options_def ex_response_429_def)
  have h1: "bodyText (response (ex_options ex_response_429)) = Inr ?b"
    by (simp add: ex_options_def ex_response_429_def)
  have h2: "trim ?b \<noteq> []"
    by (simp add: trim_def utf16_def isWhiteSpace_def)
  have h3S: "ex_parseJSON ?b (errorSchema ?cfgS) = Inr ?p"
    by (simp add: ex_parseJSON_def)
  have h3N: "ex_parseJSON ?b (errorSchema ?cfgN) = Inr ?p"
    by (simp add: ex_parseJSON_def)
  have h4S: "errorToMessage ?cfgS ?p = Inr ?p"
    by (simp add: ex_errorToMessage_def)
  have h4N: "errorToMessage ?cfgN ?p = Inr ?p"
    by (simp add: ex_errorToMessage_def)
  have s1: "isRetryable ?cfgS = Some ex_retryableByPayload"
    by simp
  have s2: "ex_retryableByPayload (response (ex_options ex_response_429)) (Some ?p) = Inr True"
    by (simp add: ex_retryableByPayload_def ex_options_def ex_response_429_def)
  have n1: "isRetryable ?cfgN = None"
    by simp
  show ?thesis
    using h0 s1 s2 n1
      json_error_handler_parsed
        [where parseJSON = ex_parseJSON and cfg = ?cfgS and q = ex_retryableByPayload
           and v = True, OF h1 h2 h3S h4S]
      json_error_handler_parsed
        [where parseJSON = ex_parseJSON and cfg = ?cfgN and q = ex_retryableByPayload
           and v = True, OF h1 h2 h3N h4N]
    by (simp add: ex_options_def ex_response_429_def)
qed

text \<open>
  C4. When the body does not trim to the empty string and \<open>parseJSON\<close> throws (the text is
  not JSON, or fails the schema), the handler returns the error of the empty-body case:
  the status text as message, no decoded payload, a retryability flag that is absent when
  there is no predicate and otherwise is the boolean that the predicate \<open>q\<close> returns when
  it is applied to the response alone; the raw body text is kept as it is.
\<close>

theorem json_error_handler_parse_failure:
  assumes "bodyText (response opts) = Inr b"
    and "trim b \<noteq> []"
    and "parseJSON b (errorSchema cfg) = Inl x"
  shows "(isRetryable cfg = None \<longrightarrow>
            createJsonErrorResponseHandler parseJSON cfg opts =
              Inr \<lparr> err_message = statusText (response opts),
                   err_url = url opts,
                   err_requestBodyValues = requestBodyValues opts,
                   err_statusCode = status (response opts),
                   err_responseBody = b,
                   err_cause = None,
                   err_data = None,
                   err_isRetryable = None \<rparr>)
       \<and> (isRetryable cfg = Some q \<longrightarrow> q (response opts) None = Inr v \<longrightarrow>
            createJsonErrorResponseHandler parseJSON cfg opts =
              Inr \<lparr> err_message = statusText (response opts),
                   err_url = url opts,
                   err_requestBodyValues = requestBodyValues opts,
                   err_statusCode = status (response opts),
                   err_responseBody = b,
                   err_cause = None,
                   err_data = None,
                   err_isRetryable = Some v \<rparr>)"
  using assms
  by (simp add: createJsonErrorResponseHandler_def optional_call_def)

text \<open>
  An instance of C4: status 502 with an HTML body, once with a predicate that holds for a
  status of 500 or more when it gets no payload, once with no predicate.
\<close>

theorem json_error_handler_parse_failure_witness:
  "createJsonErrorResponseHandler ex_parseJSON
        \<lparr> errorSchema = (), errorToMessage = ex_errorToMessage,
          isRetryable = Some ex_retryableByPayload \<rparr>
        (ex_options ex_response_502)
     = Inr \<lparr> err_message = utf16 ''Bad Gateway'',
             err_url = utf16 ''https://api.example.com/v1/chat'',
             err_requestBodyValues = ''prompt'',
             err_statusCode = 502,
             err_responseBody = utf16 ''<html>'',
             err_cause = None,
             err_data = None,
             err_isRetryable = Some True \<rparr>
   \<and> createJsonErrorResponseHandler ex_parseJSON
        \<lparr> errorSchema = (), errorToMessage = ex_errorToMessage,
          isRetryable = None :: ((string, 8 word list) response \<Rightarrow> js_string option \<Rightarrow> string + bool) option \<rparr>
        (ex_options ex_response_502)
     = Inr \<lparr> err_message = utf16 ''Bad Gateway'',
             err_url = utf16 ''https://api.example.com/v1/chat'',
             err_requestBodyValues = ''prompt'',
             err_statusCode = 502,
             err_responseBody = utf16 ''<html>'',
             err_cause = None,
             err_data = None,
             err_isRetryable = None \<rparr>"
proof -
  let ?cfgS = "\<lparr> errorSchema = (), errorToMessage = ex_errorToMessage,
                  isRetryable = Some ex_retryableByPayload \<rparr>"
  let ?cfgN = "\<lparr> errorSchema = (), errorToMessage = ex_errorToMessage,
                  isRetryable = None :: ((string, 8 word list) response \<Rightarrow> js_string option \<Rightarrow> string + bool) option \<rparr>"
  let ?b = "utf16 ''<html>''"
  have h1: "bodyText (response (ex_options ex_response_502)) = Inr ?b"
    by (simp add: ex_options_def ex_response_502_def)
  have h2: "trim ?b \<noteq> []"
    by (simp add: trim_def utf16_def isWhiteSpace_def)
  have h3S: "ex_parseJSON ?b (errorSchema ?cfgS) = Inl ''JSONParseError''"
    by (simp add: ex_parseJSON_def utf16_def)
  have h3N: "ex_parseJSON ?b (errorSchema ?cfgN) = Inl ''JSONParseError''"
    by (simp add: ex_parseJSON_def utf16_def)
  have s1: "isRetryable ?cfgS = Some ex_retryableByPayload"
    by simp
  have s2: "ex_retryableByPayload (response (ex_options ex_response_502)) None = Inr True"
    by (simp add: ex_retryableByPayload_def ex_options_def ex_response_502_def)
  have n1: "isRetryable ?cfgN = None"
    by simp
  show ?thesis
    using s1 s2 n1
      json_error_handler_parse_failure
        [where parseJSON = ex_parseJSON and cfg = ?cfgS and q = ex_retryableByPayload
           and v = True, OF h1 h2 h3S]
      json_error_handler_parse_failure
        [where parseJSON = ex_parseJSON and cfg = ?cfgN and q = ex_retryableByPayload
           and v = True, OF h1 h2 h3N]
    by (simp add: ex_options_def ex_response_502_def)
qed

text \<open>
  C5. Every \<open>ApiCallError\<close> the handler returns, in whichever branch, carries the URL, the
  request body values, the status code of the response and the whole body text.
\<close>

theorem json_error_handler_context:
  assumes "createJsonErrorResponseHandler parseJSON cfg opts = Inr e"
  shows "err_url e = url opts \<and>
         err_requestBodyValues e = requestBodyValues opts \<and>
         err_statusCode e = status (response opts) \<and>
         bodyText (response opts) = Inr (err_responseBody e)"
  using assms
  by (auto simp add: createJsonErrorResponseHandler_def split: sum.splits if_splits)

text \<open>
  An instance of C5, in the branch where the \<open>catch\<close> block runs.
\<close>

theorem json_error_handler_context_witness:
  "createJsonErrorResponseHandler ex_parseJSON
        \<lparr> errorSchema = (), errorToMessage = ex_throwingToMessage,
          isRetryable = Some ex_isRetryable \<rparr>
        (ex_options ex_response_429)
     = Inr \<lparr> err_message = utf16 ''Too Many Requests'',
             err_url = utf16 ''https://api.example.com/v1/chat'',
             err_requestBodyValues = ''prompt'',
             err_statusCode = 429,
             err_responseBody = utf16 ''{\"error\":\"rate limited\"}'',
             err_cause = None,
             err_data = None,
             err_isRetryable = Some True \<rparr>
   \<and> url (ex_options ex_response_429) = utf16 ''https://api.example.com/v1/chat''
   \<and> requestBodyValues (ex_options ex_response_429) = ''prompt''
   \<and> status (response (ex_options ex_response_429)) = 429
   \<and> bodyText (response (ex_options ex_response_429))
       = Inr (utf16 ''{\"error\":\"rate limited\"}'')"
proof -
  have h: "createJsonErrorResponseHandler ex_parseJSON
        \<lparr> errorSchema = (), errorToMessage = ex_throwingToMessage,
          isRetryable = Some ex_isRetryable \<rparr>
        (ex_options ex_response_429)
     = Inr \<lparr> err_message = utf16 ''Too Many Requests'',
             err_url = utf16 ''https://api.example.com/v1/chat'',
             err_requestBodyValues = ''prompt'',
             err_statusCode = 429,
             err_responseBody = utf16 ''{\"error\":\"rate limited\"}'',
             err_cause = None,
             err_data = None,
             err_isRetryable = Some True \<rparr>"
    by (simp add: createJsonErrorResponseHandler_def ex_defs)
  show ?thesis
    using h json_error_handler_context [OF h] by simp
qed

subsection \<open>Event streams\<close>

text \<open>
  C6. When \<open>response.body\<close> is \<open>null\<close>, the handler made by
  \<open>createEventSourceResponseHandler\<close> fails with \<open>Error('No response body')\<close>: the call
  itself is rejected, and no sequence of chunks is returned.
\<close>

theorem event_source_no_body_fails:
  "body (response opts) = None \<Longrightarrow>
     createEventSourceResponseHandler textDecoderStream eventSourceParserStream
        safeParseJSON chunkSchema opts
     = Inl (Error (utf16 ''No response body''))"
  by (simp add: createEventSourceResponseHandler_def)

text \<open>
  An instance of C6.
\<close>

theorem event_source_no_body_fails_witness:
  "body (response (ex_options ex_response_502)) = None
   \<and> createEventSourceResponseHandler ex_textDecoderStream ex_eventSourceParserStream
        ex_safeParseJSON () (ex_options ex_response_502)
     = Inl (Error (utf16 ''No response body''))"
proof -
  have h: "body (response (ex_options ex_response_502)) = None"
    by (simp add: ex_options_def ex_response_502_def)
  show ?thesis
    using h event_source_no_body_fails [OF h] by simp
qed

text \<open>
  C7. When the events of the body are \<open>N\<close> events whose data \<open>safeParseJSON\<close> accepts,
  followed by one event whose data is \<open>[DONE]\<close>, the handler produces exactly \<open>N\<close> chunks,
  all of type \<open>value\<close>, holding the decoded values in the order of the events; the
  \<open>[DONE]\<close> event produces none. (The text \<open>[DONE]\<close> is not JSON; since \<open>safeParseJSON\<close>
  is a parameter here, that the \<open>N\<close> events are not \<open>[DONE]\<close> events is said explicitly.)
\<close>

theorem event_source_all_valid:
  assumes "body (response opts) = Some bytes"
    and "eventSourceParserStream (textDecoderStream bytes) = es @ [d]"
    and "data d = utf16 ''[DONE]''"
    and "\<forall>e\<in>set es. data e \<noteq> utf16 ''[DONE]''"
    and "map (\<lambda>e. safeParseJSON (data e) chunkSchema) es = map Success vs"
  shows "createEventSourceResponseHandler textDecoderStream eventSourceParserStream
           safeParseJSON chunkSchema opts = Inr (map ChunkValue vs)
         \<and> length (map ChunkValue vs) = length es"
proof -
  have keep: "filter (\<lambda>ev. data ev \<noteq> utf16 ''[DONE]'') (es @ [d]) = es"
    using assms(3,4) by simp
  have "map (\<lambda>ev. case safeParseJSON (data ev) chunkSchema of
                   Success v \<Rightarrow> ChunkValue v
                 | Failure e \<Rightarrow> ChunkError e) es
        = map (\<lambda>r. case r of Success v \<Rightarrow> ChunkValue v | Failure e \<Rightarrow> ChunkError e)
            (map (\<lambda>e. safeParseJSON (data e) chunkSchema) es)"
    by (simp add: comp_def)
  also have "\<dots> = map ChunkValue vs"
    by (simp add: assms(5) comp_def)
  finally have chunks: "map (\<lambda>ev. case safeParseJSON (data ev) chunkSchema of
                   Success v \<Rightarrow> ChunkValue v
                 | Failure e \<Rightarrow> ChunkError e) es = map ChunkValue vs" .
  have "length es = length vs"
    using assms(5) by (metis length_map)
  then show ?thesis
    using assms(1,2) keep chunks
    by (simp add: createEventSourceResponseHandler_def pipeThrough_def TransformStream_def
        runTransform_transform)
qed

text \<open>
  An instance of C7: two events and the terminator.
\<close>

theorem event_source_all_valid_witness:
  "createEventSourceResponseHandler ex_textDecoderStream ex_eventSourceParserStream
     ex_safeParseJSON ()
     (ex_options (ex_response_stream [''{\"v\":1}'', ''{\"v\":2}'', ''[DONE]'']))
   = Inr [ChunkValue 1, ChunkValue 2]"
proof -
  let ?opts = "ex_options (ex_response_stream [''{\"v\":1}'', ''{\"v\":2}'', ''[DONE]''])"
  let ?es = "[\<lparr> event = None, event_id = None, data = utf16 ''{\"v\":1}'' \<rparr>,
              \<lparr> event = None, event_id = None, data = utf16 ''{\"v\":2}'' \<rparr>]"
  let ?d = "\<lparr> event = None, event_id = None, data = utf16 ''[DONE]'' \<rparr>"
  have h1: "body (response ?opts) = Some (map ascii [''{\"v\":1}'', ''{\"v\":2}'', ''[DONE]''])"
    by (simp add: ex_options_def ex_response_stream_def)
  have h2: "ex_eventSourceParserStream
              (ex_textDecoderStream (map ascii [''{\"v\":1}'', ''{\"v\":2}'', ''[DONE]'']))
            = ?es @ [?d]"
    by (simp add: ex_eventSourceParserStream_def ex_textDecoderStream_def ascii_def utf16_def)
  have h3: "data ?d = utf16 ''[DONE]''"
    by simp
  have h4: "\<forall>e\<in>set ?es. data e \<noteq> utf16 ''[DONE]''"
    by (simp add: utf16_def)
  have h5: "map (\<lambda>e. ex_safeParseJSON (data e) ()) ?es = map Success [1, 2]"
    by (simp add: ex_safeParseJSON_def utf16_def)
  show ?thesis
    using event_source_all_valid
            [where textDecoderStream = ex_textDecoderStream
               and eventSourceParserStream = ex_eventSourceParserStream
               and safeParseJSON = ex_safeParseJSON and chunkSchema = "()",
             OF h1 h2 h3 h4 h5]
    by simp
qed

text \<open>
  C8. For an event whose data is not \<open>[DONE]\<close>, the \<open>transform\<close> callback enqueues exactly
  one chunk: of type \<open>value\<close> when \<open>safeParseJSON\<close> accepts the data, of type \<open>error\<close>
  with the parse error otherwise. The stream the handler returns holds one such chunk for
  every event that is not \<open>[DONE]\<close>, in order, so no event is dropped, and an \<open>error\<close>
  chunk does not affect the chunks of the events after it.
\<close>

theorem event_source_one_chunk_per_event:
  "(data ev \<noteq> utf16 ''[DONE]'' \<longrightarrow>
      transform safeParseJSON chunkSchema ev controller =
        controller @ [case safeParseJSON (data ev) chunkSchema of
                        Success v \<Rightarrow> ChunkValue v
                      | Failure e \<Rightarrow> ChunkError e])
   \<and> (body (response opts) = Some bytes \<longrightarrow>
        createEventSourceResponseHandler textDecoderStream eventSourceParserStream
          safeParseJSON chunkSchema opts =
        Inr (map (\<lambda>ev. case safeParseJSON (data ev) chunkSchema of
                         Success v \<Rightarrow> ChunkValue v
                       | Failure e \<Rightarrow> ChunkError e)
               (filter (\<lambda>ev. data ev \<noteq> utf16 ''[DONE]'')
                  (eventSourceParserStream (textDecoderStream bytes)))))"
  by (simp add: createEventSourceResponseHandler_def pipeThrough_def TransformStream_def
        runTransform_transform transform_def enqueue_def)

text \<open>
  An instance of C8: an event that does not parse between two that do.
\<close>

theorem event_source_one_chunk_per_event_witness:
  "transform ex_safeParseJSON ()
      \<lparr> event = None, event_id = None, data = utf16 ''oops'' \<rparr> [ChunkValue 1]
     = [ChunkValue 1, ChunkError ''JSONParseError'']
   \<and> createEventSourceResponseHandler ex_textDecoderStream ex_eventSourceParserStream
        ex_safeParseJSON ()
        (ex_options (ex_response_stream [''{\"v\":1}'', ''oops'', ''{\"v\":2}'', ''[DONE]'']))
     = Inr [ChunkValue 1, ChunkError ''JSONParseError'', ChunkValue 2]"
proof -
  let ?ev = "\<lparr> event = None, event_id = None, data = utf16 ''oops'' \<rparr>"
  let ?opts = "ex_options (ex_response_stream [''{\"v\":1}'', ''oops'', ''{\"v\":2}'', ''[DONE]''])"
  let ?bytes = "map ascii [''{\"v\":1}'', ''oops'', ''{\"v\":2}'', ''[DONE]'']"
  have h1: "data ?ev \<noteq> utf16 ''[DONE]''"
    by (simp add: utf16_def)
  have h2: "body (response ?opts) = Some ?bytes"
    by (simp add: ex_options_def ex_response_stream_def)
  show ?thesis
    using h1 h2
      event_source_one_chunk_per_event
        [where ev = ?ev and opts = ?opts and bytes = ?bytes
           and safeParseJSON = ex_safeParseJSON and chunkSchema = "()"
           and controller = "[ChunkValue 1]"
           and textDecoderStream = ex_textDecoderStream
           and eventSourceParserStream = ex_eventSourceParserStream]
    by (simp add: ex_safeParseJSON_def ex_eventSourceParserStream_def
          ex_textDecoderStream_def ascii_def utf16_def)
qed

text \<open>
  C10. The handler made by \<open>createEventSourceResponseHandler\<close> reads only the response:
  two calls with the same response and any URLs and request body values give the same
  result.
\<close>

theorem event_source_ignores_url_and_request:
  "createEventSourceResponseHandler textDecoderStream eventSourceParserStream
      safeParseJSON chunkSchema
      \<lparr> url = u1, requestBodyValues = v1, response = r \<rparr>
   = createEventSourceResponseHandler textDecoderStream eventSourceParserStream
      safeParseJSON chunkSchema
      \<lparr> url = u2, requestBodyValues = v2, response = r \<rparr>"
  by (simp add: createEventSourceResponseHandler_def)

subsection \<open>Whole-body JSON\<close>

text \<open>
  C9. The handler made by \<open>createJsonResponseHandler\<close> returns the validated value when
  \<open>safeParseJSON\<close> accepts the body text; otherwise it throws an \<open>ApiCallError\<close> with the
  message \<open>Invalid JSON response\<close>, the parse error as cause, the status code of the
  response and the raw body text.
\<close>

theorem json_handler_result:
  assumes "bodyText (response opts) = Inr b"
  shows "createJsonResponseHandler safeParseJSON responseSchema opts =
           (case safeParseJSON b responseSchema of
              Success v \<Rightarrow> Inr v
            | Failure err \<Rightarrow>
                Inl (ApiCallError
                  \<lparr> err_message = utf16 ''Invalid JSON response'',
                    err_url = url opts,
                    err_requestBodyValues = requestBodyValues opts,
                    err_statusCode = status (response opts),
                    err_responseBody = b,
                    err_cause = Some err,
                    err_data = None,
                    err_isRetryable = None \<rparr>))"
  using assms
  by (simp add: createJsonResponseHandler_def split: parse_result.splits)

text \<open>
  An instance of C9: a body that is not JSON.
\<close>

theorem json_handler_result_witness:
  "createJsonResponseHandler ex_safeParseJSON () (ex_options ex_response_502)
     = Inl (ApiCallError
              \<lparr> err_message = utf16 ''Invalid JSON response'',
                err_url = utf16 ''https://api.example.com/v1/chat'',
                err_requestBodyValues = ''prompt'',
                err_statusCode = 502,
                err_responseBody = utf16 ''<html>'',
                err_cause = Some ''JSONParseError'',
                err_data = None,
                err_isRetryable = None \<rparr>)"
proof -
  have h: "bodyText (response (ex_options ex_response_502)) = Inr (utf16 ''<html>'')"
    by (simp add: ex_options_def ex_response_502_def)
  show ?thesis
    using json_handler_result [OF h, of ex_safeParseJSON "()"]
    by (simp add: ex_safeParseJSON_def ex_options_def ex_response_502_def utf16_def)
qed

end
